theory Spec2Isabelle
  imports Main
begin

section \<open>Values exchanged with the platform\<close>

text \<open>
  A thrown JavaScript error or a rejected promise: \<open>Error msg\<close> is an error made with a
  message; \<open>TypeError\<close> and \<open>RangeError\<close> are the errors the platform itself throws, whose
  wording is the platform's. A function of the source that may throw returns
  \<open>js_error + 'a\<close>, with \<open>Inl\<close> for the throw.
\<close>

datatype js_error = Error string | TypeError | RangeError

text \<open>The JSON bodies that \<open>NextResponse.json\<close> serialises in \<open>route.ts\<close>.\<close>

datatype json = JString string | JBool bool | JObject "(string \<times> json) list"

record response =
  status :: nat
  body :: json

text \<open>
  \<open>NextResponse.json(body, { status })\<close>. The platform's \<open>Response\<close> constructor throws for a
  status outside 200..599 (RangeError) and for a body on a null-body status (TypeError);
  \<open>response_init_ok\<close> is the condition under which it returns. Every call with a literal status
  in \<open>route.ts\<close> (200, 400, 500) satisfies it, so only the call with the status computed by the
  fallback path checks it.
\<close>

definition NextResponse_json :: "json \<Rightarrow> nat \<Rightarrow> response" where
  "NextResponse_json b code = \<lparr>status = code, body = b\<rparr>"

definition response_init_ok :: "nat \<Rightarrow> bool" where
  "response_init_ok code = (200 \<le> code \<and> code \<le> 599 \<and> code \<noteq> 204 \<and> code \<noteq> 205 \<and> code \<noteq> 304)"

definition response_init_error :: "nat \<Rightarrow> js_error" where
  "response_init_error code = (if code < 200 \<or> 599 < code then RangeError else TypeError)"

definition error_body :: "string \<Rightarrow> json" where
  "error_body msg = JObject [(''error'', JString msg)]"

definition success_body :: json where
  "success_body = JObject [(''success'', JBool True)]"

text \<open>The console: every \<open>console.log\<close>, \<open>console.warn\<close> and \<open>console.error\<close> appends one entry.\<close>

datatype level = LOG | WARN | ERROR

type_synonym log_entry = "level \<times> string \<times> js_error option"

text \<open>A template literal prints \<open>null\<close> for a missing query parameter.\<close>

fun template :: "string option \<Rightarrow> string" where
  "template None = ''null''"
| "template (Some s) = s"

fun string_of_nat :: "nat \<Rightarrow> string" where
  "string_of_nat n =
     (if n < 10 then [char_of (48 + n)]
      else string_of_nat (n div 10) @ [char_of (48 + n mod 10)])"

declare string_of_nat.simps [simp del]

section \<open>The shared session store (Redis)\<close>

text \<open>
  The client of \<open>lib/redis.ts\<close> is an ioredis connection. The store holds, for each key, a value
  and the seconds to live that were last set. Each command is a promise that either resolves
  or rejects; \<open>fails r c\<close> is the rejection of command \<open>c\<close>, when it has one. Expiry by the passage
  of time is outside this model: the TTL is the number last written.
\<close>

datatype redis_cmd = SET | EXISTS | EXPIRE | DEL

record redis_client =
  entries :: "string \<rightharpoonup> (string \<times> nat)"
  fails :: "redis_cmd \<Rightarrow> js_error option"

definition redis_exists :: "redis_client \<Rightarrow> string \<Rightarrow> js_error + nat" where
  "redis_exists r k =
     (case fails r EXISTS of
        Some err \<Rightarrow> Inl err
      | None \<Rightarrow> Inr (case entries r k of None \<Rightarrow> 0 | Some _ \<Rightarrow> 1))"

definition redis_expire :: "redis_client \<Rightarrow> string \<Rightarrow> nat \<Rightarrow> (js_error + nat) \<times> redis_client" where
  "redis_expire r k secs =
     (case fails r EXPIRE of
        Some err \<Rightarrow> (Inl err, r)
      | None \<Rightarrow>
          (case entries r k of
             None \<Rightarrow> (Inr 0, r)
           | Some (v, _) \<Rightarrow> (Inr 1, r\<lparr>entries := (entries r)(k \<mapsto> (v, secs))\<rparr>)))"

definition redis_del :: "redis_client \<Rightarrow> string \<Rightarrow> (js_error + nat) \<times> redis_client" where
  "redis_del r k =
     (case fails r DEL of
        Some err \<Rightarrow> (Inl err, r)
      | None \<Rightarrow>
          (case entries r k of
             None \<Rightarrow> (Inr 0, r)
           | Some _ \<Rightarrow> (Inr 1, r\<lparr>entries := (entries r)(k := None)\<rparr>)))"

definition redis_set_ex :: "redis_client \<Rightarrow> string \<Rightarrow> string \<Rightarrow> nat \<Rightarrow> (js_error + string) \<times> redis_client" where
  "redis_set_ex r k v secs =
     (case fails r SET of
        Some err \<Rightarrow> (Inl err, r)
      | None \<Rightarrow> (Inr ''OK'', r\<lparr>entries := (entries r)(k \<mapsto> (v, secs))\<rparr>))"

section \<open>Requests, transports and the state of one process instance\<close>

text \<open>
  A call request: \<open>req.nextUrl.searchParams.get('sessionId')\<close> (null when the parameter is
  missing) and the outcome of \<open>await req.text()\<close>.
\<close>

record request =
  searchParams_sessionId :: "string option"
  text_body :: "js_error + string"

text \<open>
  The fallback path hands the handler a mock response with \<open>status(code)\<close>, \<open>send(body)\<close> and
  \<open>end()\<close>; \<open>status(code).send(body)\<close> is \<open>Status code\<close> followed by \<open>Send body\<close>. The two
  variables \<open>responseStatus\<close> and \<open>responseBody\<close> are the pair that \<open>mockRes\<close> updates.
\<close>

datatype mock_call = Status nat | Send string | End

fun mockRes :: "mock_call \<Rightarrow> nat \<times> string \<Rightarrow> nat \<times> string" where
  "mockRes (Status code) (responseStatus, responseBody) = (code, responseBody)"
| "mockRes (Send b) (responseStatus, responseBody) = (responseStatus, b)"
| "mockRes End (responseStatus, responseBody) = (responseStatus, responseBody)"

text \<open>
  \<open>SSEServerTransport\<close> belongs to the MCP SDK; the route sees of it the session id, the
  method \<open>receiveMessage\<close> if the object has one (it resolves to a value or to nothing, or
  rejects), and \<open>handlePostMessage\<close>, which calls the mock response some number of times and
  then returns or throws. What a handler does besides (the frames it pushes down the stream)
  is not part of the state kept here.
\<close>

record transport =
  sessionId :: string
  receiveMessage :: "(string \<Rightarrow> js_error + json option) option"
  handlePostMessage :: "request \<Rightarrow> mock_call list \<times> js_error option"

text \<open>What was handed to a transport's inbound handler, in order, with the session id.\<close>

datatype handler_call = ReceiveMessage string string | HandlePostMessage string request

text \<open>
  \<open>activeTransports\<close> is the module-level object of \<open>route.ts\<close>, a plain \<open>{}\<close> keyed by session
  id; the map holds its own properties. \<open>GET\<close> and \<open>onClose\<close> assign and delete under the id of
  a transport, which the SDK generates (a UUID). \<open>POST\<close> reads under the id of the request, and
  a read of a plain object also finds what the object inherits from \<open>Object.prototype\<close>.
\<close>

record process_state =
  activeTransports :: "string \<rightharpoonup> transport"
  redis :: redis_client
  console :: "log_entry list"
  handled :: "handler_call list"

text \<open>
  The names every plain object inherits (those of the language standard and its annex for
  web compatibility). Each of them reads as a function or an object, which is truthy and has
  neither \<open>receiveMessage\<close> nor \<open>handlePostMessage\<close>.
\<close>

definition Object_prototype_names :: "string list" where
  "Object_prototype_names =
     [''constructor'', ''hasOwnProperty'', ''isPrototypeOf'', ''propertyIsEnumerable'',
      ''toLocaleString'', ''toString'', ''valueOf'', ''__proto__'',
      ''__defineGetter__'', ''__defineSetter__'', ''__lookupGetter__'', ''__lookupSetter__'']"

text \<open>The value of \<open>activeTransports[sessionId]\<close>: an own property shadows an inherited one.\<close>

datatype looked_up = Undefined | Inherited | Registered transport

definition property_get :: "(string \<rightharpoonup> transport) \<Rightarrow> string \<Rightarrow> looked_up" where
  "property_get obj k =
     (case obj k of
        Some tr \<Rightarrow> Registered tr
      | None \<Rightarrow> if k \<in> set Object_prototype_names then Inherited else Undefined)"

definition console_log :: "process_state \<Rightarrow> string \<Rightarrow> process_state" where
  "console_log s msg = s\<lparr>console := console s @ [(LOG, msg, None)]\<rparr>"

definition console_warn :: "process_state \<Rightarrow> string \<Rightarrow> process_state" where
  "console_warn s msg = s\<lparr>console := console s @ [(WARN, msg, None)]\<rparr>"

definition console_error :: "process_state \<Rightarrow> string \<Rightarrow> js_error option \<Rightarrow> process_state" where
  "console_error s msg err = s\<lparr>console := console s @ [(ERROR, msg, err)]\<rparr>"

definition SESSION_EXPIRATION_SECONDS :: nat where
  "SESSION_EXPIRATION_SECONDS = 3600"

definition session_key :: "string \<Rightarrow> string" where
  "session_key sid = ''mcp_session:'' @ sid"

section \<open>The call handler \<open>POST\<close>\<close>

text \<open>
  \<open>redis.expire(key, SESSION_EXPIRATION_SECONDS).catch(...)\<close>: the promise is not awaited. Its
  effect on the store and the entry its \<open>catch\<close> logs are placed where the command is issued.
\<close>

definition refresh_expiry :: "process_state \<Rightarrow> string \<Rightarrow> process_state" where
  "refresh_expiry s sid =
     (case redis_expire (redis s) (session_key sid) SESSION_EXPIRATION_SECONDS of
        (Inl err, r) \<Rightarrow>
          console_error s (''Error refreshing expiry for session '' @ sid @ '':'') (Some err)
      | (Inr n, r) \<Rightarrow> s\<lparr>redis := r\<rparr>)"

text \<open>The \<open>catch\<close> block of step 3.\<close>

definition failed_to_process :: "process_state \<Rightarrow> string \<Rightarrow> js_error \<Rightarrow> response \<times> process_state" where
  "failed_to_process s sid err =
     (NextResponse_json (error_body ''Failed to process message'') 500,
      console_error s (''Error processing POST message for session '' @ sid @ '':'') (Some err))"

text \<open>Step 3, the \<open>try\<close> block that forwards the message to the transport found in memory.\<close>

definition process_message ::
    "process_state \<Rightarrow> string \<Rightarrow> transport \<Rightarrow> request \<Rightarrow> response \<times> process_state" where
  "process_message s sid tr req =
     (case text_body req of
        Inl err \<Rightarrow> failed_to_process s sid err
      | Inr messageString \<Rightarrow>
          (case receiveMessage tr of
             Some recv \<Rightarrow>
               (let s1 = s\<lparr>handled := handled s @ [ReceiveMessage sid messageString]\<rparr> in
                case recv messageString of
                  Inl err \<Rightarrow> failed_to_process s1 sid err
                | Inr _ \<Rightarrow>
                    (NextResponse_json success_body 200,
                     console_log s1 (''Message forwarded to transport for session '' @ sid)))
           | None \<Rightarrow>
               (let s1 = console_warn s (''Transport for session '' @ sid @
                           '' does not have a receiveMessage method. Attempting handlePostMessage (may fail).'');
                    s2 = s1\<lparr>handled := handled s1 @ [HandlePostMessage sid req]\<rparr>;
                    (calls, thrown) = handlePostMessage tr req;
                    (responseStatus, responseBody) = fold mockRes calls (200, [])
                in case thrown of
                     Some err \<Rightarrow> failed_to_process s2 sid err
                   | None \<Rightarrow>
                       (let s3 = console_log s2 (''handlePostMessage called for session '' @ sid @
                                   ''. Mock response status: '' @ string_of_nat responseStatus)
                        in if response_init_ok responseStatus
                           then (NextResponse_json
                                   (if responseBody = [] then success_body else JString responseBody)
                                   responseStatus, s3)
                           else failed_to_process s3 sid (response_init_error responseStatus)))))"

text \<open>
  Step 3 when the value read from \<open>activeTransports\<close> is an inherited member: the body is
  read, \<open>typeof transport.receiveMessage\<close> is not \<open>function\<close>, the warning is printed, and the
  call of \<open>transport.handlePostMessage\<close>, which is undefined, throws a TypeError into the
  \<open>catch\<close> block.
\<close>

definition process_inherited :: "process_state \<Rightarrow> string \<Rightarrow> request \<Rightarrow> response \<times> process_state" where
  "process_inherited s sid req =
     (case text_body req of
        Inl err \<Rightarrow> failed_to_process s sid err
      | Inr messageString \<Rightarrow>
          (let s1 = console_warn s (''Transport for session '' @ sid @
                      '' does not have a receiveMessage method. Attempting handlePostMessage (may fail).'')
           in failed_to_process s1 sid TypeError))"

definition missing_sessionId :: "process_state \<Rightarrow> response \<times> process_state" where
  "missing_sessionId s =
     (NextResponse_json (error_body ''Missing sessionId'') 400,
      console_error s ''POST request missing sessionId'' None)"

definition POST :: "process_state \<Rightarrow> request \<Rightarrow> response \<times> process_state" where
  "POST s0 req =
     (let param = searchParams_sessionId req;
          s = console_log s0 (''Received POST request for MCP message (Session ID: '' @ template param @ '')'')
      in case param of
           None \<Rightarrow> missing_sessionId s
         | Some sid \<Rightarrow>
             if sid = [] then missing_sessionId s
             else
               (case redis_exists (redis s) (session_key sid) of
                  Inl err \<Rightarrow>
                    (NextResponse_json (error_body ''Internal server error checking session'') 500,
                     console_error s ''Redis error checking session:'' (Some err))
                | Inr sessionExists \<Rightarrow>
                    if sessionExists = 0 then
                      (NextResponse_json (error_body ''Invalid or expired session ID'') 400,
                       console_error s (''Session ID '' @ sid @ '' not found in Redis or expired.'') None)
                    else
                      (let s1 = refresh_expiry s sid in
                       case property_get (activeTransports s1) sid of
                         Undefined \<Rightarrow>
                           (NextResponse_json
                              (error_body ''Transport not found for session ID. Please reconnect.'') 400,
                            console_error s1 (''Transport not found in memory for Session ID '' @ sid @
                              ''. Possible instance mismatch.'') None)
                       | Inherited \<Rightarrow> process_inherited s1 sid req
                       | Registered tr \<Rightarrow> process_message s1 sid tr req)))"

section \<open>The stream-open handler \<open>GET\<close> and the teardown callback\<close>

text \<open>
  \<open>redis.del(key).catch(...)\<close>, not awaited: the record is deleted, or the rejection is logged.
\<close>

definition delete_session :: "process_state \<Rightarrow> string \<Rightarrow> process_state" where
  "delete_session s sid =
     (case redis_del (redis s) (session_key sid) of
        (Inl err, r) \<Rightarrow>
          console_error s (''Error deleting session '' @ sid @ '' from Redis:'') (Some err)
      | (Inr n, r) \<Rightarrow> s\<lparr>redis := r\<rparr>)"

text \<open>
  \<open>onClose\<close>, the callback given to the transport: \<open>delete activeTransports[id]\<close>, which does
  nothing and does not throw for a key that is not there, then the deletion from the store.
\<close>

definition onClose :: "process_state \<Rightarrow> transport \<Rightarrow> process_state" where
  "onClose s0 tr =
     (let sid = sessionId tr;
          s1 = console_log s0 (''SSE connection closed for session '' @ sid @ ''. Cleaning up.'');
          s2 = s1\<lparr>activeTransports := (activeTransports s1)(sid := None)\<rparr>
      in delete_session s2 sid)"

text \<open>
  \<open>transport.close()\<close> is SDK code. Section 4.1 of the specification has \<open>close\<close> invoke the
  registered teardown callback before it returns, and that is the effect taken here.
\<close>

definition transport_close :: "process_state \<Rightarrow> transport \<Rightarrow> process_state" where
  "transport_close s tr = onClose s tr"

text \<open>
  \<open>redis.set(key, 'active', 'EX', SESSION_EXPIRATION_SECONDS).then(...).catch(...)\<close>, not awaited.
\<close>

definition store_session :: "process_state \<Rightarrow> string \<Rightarrow> process_state" where
  "store_session s sid =
     (case redis_set_ex (redis s) (session_key sid) ''active'' SESSION_EXPIRATION_SECONDS of
        (Inl err, r) \<Rightarrow>
          console_error s (''Error storing session '' @ sid @ '' in Redis:'') (Some err)
      | (Inr ok, r) \<Rightarrow> console_log (s\<lparr>redis := r\<rparr>) (''Session '' @ sid @ '' stored in Redis''))"

definition sse_headers :: "(string \<times> string) list" where
  "sse_headers =
     [(''Content-Type'', ''text/event-stream''),
      (''Cache-Control'', ''no-cache, no-transform''),
      (''Connection'', ''keep-alive'')]"

text \<open>
  \<open>GET\<close>: the stream's \<open>start\<close> runs when the stream is constructed. The transport is the
  object the SDK's constructor returns, with the session id the SDK generated;
  \<open>connect_error\<close> is the rejection of \<open>mcpServer.connect(transport)\<close>, when it rejects.
\<close>

definition GET :: "process_state \<Rightarrow> transport \<Rightarrow> js_error option \<Rightarrow> (string \<times> string) list \<times> process_state" where
  "GET s0 tr connect_error =
     (let s1 = console_log s0 ''Received GET request for MCP SSE connection'';
          sid = sessionId tr;
          s2 = console_log s1 (''Generated Session ID: '' @ sid);
          s3 = s2\<lparr>activeTransports := (activeTransports s2)(sid \<mapsto> tr)\<rparr>;
          s4 = store_session s3 sid;
          s5 = (case connect_error of
                  None \<Rightarrow> console_log s4 (''McpServer connected to transport for session '' @ sid)
                | Some err \<Rightarrow>
                    transport_close
                      (console_error s4 (''Error connecting McpServer for session '' @ sid @ '':'') (Some err))
                      tr)
      in (sse_headers, s5))"

section \<open>Start-up: the module \<open>lib/redis.ts\<close>\<close>

record env =
  REDIS_URL :: "string option"
  NODE_ENV :: "string option"

definition startsWith :: "string \<Rightarrow> string \<Rightarrow> bool" where
  "startsWith s p = (take (length p) s = p)"

fun includes_str :: "string \<Rightarrow> string \<Rightarrow> bool" where
  "includes_str [] p = (p = [])"
| "includes_str (c # cs) p = (startsWith (c # cs) p \<or> includes_str cs p)"

record tls_options =
  rejectUnauthorized :: bool

record redis_options =
  maxRetriesPerRequest :: nat
  tls :: "tls_options option"
  lazyConnect :: bool

record redis_module_exports =
  redis_url :: string
  redis_opts :: redis_options
  startup_console :: "log_entry list"

text \<open>
  Evaluating the module: \<open>!redisUrl\<close> holds for an unset variable and for the empty string, and
  then the module throws; otherwise the options of \<open>new Redis(redisUrl, {...})\<close> are computed.
\<close>

definition redis_module :: "env \<Rightarrow> js_error + redis_module_exports" where
  "redis_module e =
     (case REDIS_URL e of
        None \<Rightarrow> Inl (Error ''REDIS_URL environment variable is not set.'')
      | Some redisUrl \<Rightarrow>
          if redisUrl = [] then Inl (Error ''REDIS_URL environment variable is not set.'')
          else if startsWith redisUrl ''rediss://'' \<or> includes_str redisUrl ''tls=true''
          then Inr \<lparr>redis_url = redisUrl,
                    redis_opts = \<lparr>maxRetriesPerRequest = 3,
                                  tls = Some \<lparr>rejectUnauthorized = (NODE_ENV e = Some ''production'')\<rparr>,
                                  lazyConnect = True\<rparr>,
                    startup_console = [(LOG, ''Attempting Redis connection with TLS enabled.'', None)]\<rparr>
          else Inr \<lparr>redis_url = redisUrl,
                    redis_opts = \<lparr>maxRetriesPerRequest = 3, tls = None, lazyConnect = True\<rparr>,
                    startup_console = [(LOG, ''Attempting Redis connection without explicit TLS.'', None)]\<rparr>)"

text \<open>
  \<open>route.ts\<close> imports \<open>lib/redis\<close>: when that module throws, the route module does not load
  and there is no handler to run. When it loads, \<open>activeTransports\<close> starts empty; \<open>srv\<close> is the
  Redis server the client talks to.
\<close>

definition route_module :: "env \<Rightarrow> redis_client \<Rightarrow> js_error + process_state" where
  "route_module e srv =
     (case redis_module e of
        Inl err \<Rightarrow> Inl err
      | Inr m \<Rightarrow> Inr \<lparr>activeTransports = Map.empty, redis = srv,
                      console = startup_console m, handled = []\<rparr>)"

text \<open>The session operations of one instance, and a run of them after start-up.\<close>

datatype operation = StreamOpen transport "js_error option" | Call request | StreamClose transport

fun perform :: "process_state \<Rightarrow> operation \<Rightarrow> process_state" where
  "perform s (StreamOpen tr connect_error) = snd (GET s tr connect_error)"
| "perform s (Call req) = snd (POST s req)"
| "perform s (StreamClose tr) = transport_close s tr"

definition serve :: "env \<Rightarrow> redis_client \<Rightarrow> operation list \<Rightarrow> js_error + process_state" where
  "serve e srv ops =
     (case route_module e srv of
        Inl err \<Rightarrow> Inl err
      | Inr s \<Rightarrow> Inr (foldl perform s ops))"

section \<open>Example instances\<close>

text \<open>Concrete transports, states and requests on which the theorems below are evaluated.\<close>

definition pong :: json where
  "pong = JObject [(''pong'', JBool True)]"

definition pong_handler :: "string \<Rightarrow> js_error + json option" where
  "pong_handler m = Inr (Some pong)"

definition broken_handler :: "string \<Rightarrow> js_error + json option" where
  "broken_handler m = Inl (Error ''handler failed'')"

definition pong_transport :: "string \<Rightarrow> transport" where
  "pong_transport sid =
     \<lparr>sessionId = sid, receiveMessage = Some pong_handler,
      handlePostMessage = (\<lambda>req. ([], None))\<rparr>"

definition broken_transport :: "string \<Rightarrow> transport" where
  "broken_transport sid =
     \<lparr>sessionId = sid, receiveMessage = Some broken_handler,
      handlePostMessage = (\<lambda>req. ([], None))\<rparr>"

definition accepting_transport :: "string \<Rightarrow> transport" where
  "accepting_transport sid =
     \<lparr>sessionId = sid, receiveMessage = None,
      handlePostMessage = (\<lambda>req. ([Status 202, Send ''Accepted''], None))\<rparr>"

definition no_content_transport :: "string \<Rightarrow> transport" where
  "no_content_transport sid =
     \<lparr>sessionId = sid, receiveMessage = None,
      handlePostMessage = (\<lambda>req. ([Status 204, End], None))\<rparr>"

definition instance_of ::
    "(string \<rightharpoonup> transport) \<Rightarrow> (string \<rightharpoonup> (string \<times> nat)) \<Rightarrow> (redis_cmd \<Rightarrow> js_error option) \<Rightarrow> process_state" where
  "instance_of reg recs flt =
     \<lparr>activeTransports = reg, redis = \<lparr>entries = recs, fails = flt\<rparr>, console = [], handled = []\<rparr>"

definition no_failure :: "redis_cmd \<Rightarrow> js_error option" where
  "no_failure c = None"

definition call :: "string \<Rightarrow> string \<Rightarrow> request" where
  "call sid payload = \<lparr>searchParams_sessionId = Some sid, text_body = Inr payload\<rparr>"

section \<open>Frame lemmas of the call handler\<close>

lemmas POST_defs = POST_def missing_sessionId_def console_error_def console_log_def console_warn_def
  NextResponse_json_def error_body_def success_body_def redis_exists_def property_get_def Let_def

lemma console_log_frame [simp]:
  "redis (console_log s m) = redis s"
  "activeTransports (console_log s m) = activeTransports s"
  "handled (console_log s m) = handled s"
  by (simp_all add: console_log_def)

lemma console_error_frame [simp]:
  "redis (console_error s m e) = redis s"
  "activeTransports (console_error s m e) = activeTransports s"
  "handled (console_error s m e) = handled s"
  by (simp_all add: console_error_def)

lemma property_get_registered: "obj k = Some tr \<Longrightarrow> property_get obj k = Registered tr"
  by (simp add: property_get_def)

lemma refresh_expiry_activeTransports: "activeTransports (refresh_expiry s sid) = activeTransports s"
  by (simp add: refresh_expiry_def split: prod.splits sum.splits)

lemma refresh_expiry_handled: "handled (refresh_expiry s sid) = handled s"
  by (simp add: refresh_expiry_def split: prod.splits sum.splits)

lemma refresh_expiry_entries:
  "entries (redis s) (session_key sid) = Some (v, ttl) \<Longrightarrow>
   entries (redis (refresh_expiry s sid)) =
     (case fails (redis s) EXPIRE of
        None \<Rightarrow> (entries (redis s))(session_key sid \<mapsto> (v, SESSION_EXPIRATION_SECONDS))
      | Some err \<Rightarrow> entries (redis s))"
  by (simp add: refresh_expiry_def redis_expire_def console_error_def split: option.splits)

lemma refresh_expiry_logs_failure:
  "fails (redis s) EXPIRE = Some err \<Longrightarrow>
   console (refresh_expiry s sid) =
     console s @ [(ERROR, ''Error refreshing expiry for session '' @ sid @ '':'', Some err)]"
  by (simp add: refresh_expiry_def redis_expire_def console_error_def)

lemma process_message_activeTransports:
  "activeTransports (snd (process_message s sid tr req)) = activeTransports s"
  by (simp add: process_message_def failed_to_process_def console_error_def console_log_def
      console_warn_def Let_def split: sum.splits option.splits prod.splits)

lemma process_message_redis: "redis (snd (process_message s sid tr req)) = redis s"
  by (simp add: process_message_def failed_to_process_def console_error_def console_log_def
      console_warn_def Let_def split: sum.splits option.splits prod.splits)

lemma process_message_console_prefix:
  "\<exists>es. console (snd (process_message s sid tr req)) = console s @ es"
  by (simp add: process_message_def failed_to_process_def console_error_def console_log_def
      console_warn_def Let_def split: sum.splits option.splits prod.splits)

lemma process_message_response_frame:
  "fst (process_message s sid tr req) = fst (process_message s' sid tr req)"
  by (simp add: process_message_def failed_to_process_def console_error_def console_log_def
      console_warn_def Let_def split: sum.splits option.splits prod.splits)


lemma process_inherited_activeTransports:
  "activeTransports (snd (process_inherited s sid req)) = activeTransports s"
  by (simp add: process_inherited_def failed_to_process_def console_warn_def Let_def
      split: sum.splits)

lemma process_inherited_redis: "redis (snd (process_inherited s sid req)) = redis s"
  by (simp add: process_inherited_def failed_to_process_def console_warn_def Let_def
      split: sum.splits)

lemma process_inherited_console_prefix:
  "\<exists>es. console (snd (process_inherited s sid req)) = console s @ es"
  by (simp add: process_inherited_def failed_to_process_def console_warn_def console_error_def
      Let_def split: sum.splits)

lemma process_inherited_response_frame:
  "fst (process_inherited s sid req) = fst (process_inherited s' sid req)"
  by (simp add: process_inherited_def failed_to_process_def Let_def split: sum.splits)

lemma process_inherited_status: "status (fst (process_inherited s sid req)) = 500"
  by (simp add: process_inherited_def failed_to_process_def NextResponse_json_def Let_def
      split: sum.splits)

lemma POST_passed:
  assumes "searchParams_sessionId req = Some sid" and "sid \<noteq> []"
    and "fails (redis s) EXISTS = None"
    and "entries (redis s) (session_key sid) = Some rec"
    and "activeTransports s sid = Some tr"
  shows "POST s req =
           process_message
             (refresh_expiry
                (console_log s (''Received POST request for MCP message (Session ID: '' @ sid @ '')''))
                sid)
             sid tr req"
  using assms
  by (simp add: POST_def redis_exists_def console_log_def Let_def refresh_expiry_activeTransports
      property_get_registered)

lemma POST_success_passed:
  assumes "status (fst (POST s req)) < 300"
  shows "\<exists>sid v ttl tr. searchParams_sessionId req = Some sid \<and> sid \<noteq> []
           \<and> fails (redis s) EXISTS = None
           \<and> entries (redis s) (session_key sid) = Some (v, ttl)
           \<and> activeTransports s sid = Some tr"
  using assms
  by (auto simp add: POST_defs refresh_expiry_activeTransports process_inherited_status
      split: option.splits if_splits)

text \<open>
  The state after a call that passed the existence check: the store is the one the refresh
  left, and the console begins with the entries up to the refresh.
\<close>

lemma POST_checked_store:
  assumes "searchParams_sessionId req = Some sid" and "sid \<noteq> []"
    and "fails (redis s) EXISTS = None"
    and "entries (redis s) (session_key sid) = Some rec"
  shows "redis (snd (POST s req)) = redis (refresh_expiry s sid)"
  using assms
  by (simp add: POST_def redis_exists_def Let_def refresh_expiry_def redis_expire_def
      process_message_redis process_inherited_redis
      split: looked_up.splits option.splits prod.splits)

lemma POST_checked_console:
  assumes "searchParams_sessionId req = Some sid" and "sid \<noteq> []"
    and "fails (redis s) EXISTS = None"
    and "entries (redis s) (session_key sid) = Some rec"
  shows "\<exists>es. console (snd (POST s req)) =
           console (refresh_expiry
             (console_log s (''Received POST request for MCP message (Session ID: '' @ sid @ '')''))
             sid) @ es"
proof -
  let ?s1 = "refresh_expiry
      (console_log s (''Received POST request for MCP message (Session ID: '' @ sid @ '')'')) sid"
  consider "property_get (activeTransports ?s1) sid = Undefined"
    | "property_get (activeTransports ?s1) sid = Inherited"
    | tr where "property_get (activeTransports ?s1) sid = Registered tr"
    by (cases "property_get (activeTransports ?s1) sid") auto
  then show ?thesis
  proof cases
    case 1
    with assms show ?thesis
      by (simp add: POST_def redis_exists_def Let_def console_error_def)
  next
    case 2
    with assms have "POST s req = process_inherited ?s1 sid req"
      by (simp add: POST_def redis_exists_def Let_def)
    then show ?thesis
      using process_inherited_console_prefix by simp
  next
    case 3
    with assms have "POST s req = process_message ?s1 sid tr req"
      by (simp add: POST_def redis_exists_def Let_def)
    then show ?thesis
      using process_message_console_prefix by simp
  qed
qed

text \<open>
  The response is decided by the registry, by the answer to the existence check and by the
  request; nothing else in the state reaches it.
\<close>

lemma POST_response_frame:
  assumes "activeTransports s' = activeTransports s"
    and "fails (redis s') EXISTS = fails (redis s) EXISTS"
    and "entries (redis s') = entries (redis s)"
  shows "fst (POST s' req) = fst (POST s req)"
  using assms
  by (auto simp add: POST_def missing_sessionId_def Let_def redis_exists_def
      refresh_expiry_activeTransports NextResponse_json_def
      split: option.splits sum.splits looked_up.splits
      intro: process_message_response_frame process_inherited_response_frame)

section \<open>The call handler: outcomes of routing\<close>

text \<open>
  Claim C10. The call path never mutates the registry: whatever the request, the state of the
  store and the behaviour of the transport, \<open>activeTransports\<close> after \<open>POST\<close> is
  \<open>activeTransports\<close> before it. (The two functions that do change it are \<open>GET\<close>, which adds
  the binding of the new transport, and \<open>onClose\<close>, which removes one.)
\<close>

theorem POST_preserves_activeTransports:
  "activeTransports (snd (POST s req)) = activeTransports s"
  by (simp add: POST_def missing_sessionId_def Let_def
      refresh_expiry_activeTransports process_message_activeTransports
      process_inherited_activeTransports
      split: sum.splits option.splits looked_up.splits)


text \<open>
  For every other id the unreachable transport is reported. A call carries a non-empty
  \<open>sessionId\<close> that is not an inherited name; when the store answers the existence check and
  holds the record, and \<open>activeTransports\<close> has no binding for the id, \<open>POST\<close> answers 400 with
  the error \<open>Transport not found for session ID. Please reconnect.\<close> This is not a success,
  nothing is handed to any handler, and the error differs from the one of the expired case
  (\<open>Invalid or expired session ID\<close>): the two cases share the status 400 and are told apart
  by the error text.
\<close>

lemma POST_transport_unreachable:
  assumes "searchParams_sessionId req = Some sid" and "sid \<noteq> []"
    and "sid \<notin> set Object_prototype_names"
    and "fails (redis s) EXISTS = None"
    and "entries (redis s) (session_key sid) \<noteq> None"
    and "activeTransports s sid = None"
  shows "fst (POST s req) =
           \<lparr>status = 400,
            body = JObject [(''error'', JString ''Transport not found for session ID. Please reconnect.'')]\<rparr>
         \<and> fst (POST s req) \<noteq>
           \<lparr>status = 400, body = JObject [(''error'', JString ''Invalid or expired session ID'')]\<rparr>
         \<and> handled (snd (POST s req)) = handled s"
  using assms
  by (auto simp add: POST_defs refresh_expiry_activeTransports refresh_expiry_handled
      split: option.splits)

lemma POST_transport_unreachable_at_S2:
  "''S2'' \<notin> set Object_prototype_names
   \<and> entries (redis (instance_of Map.empty [session_key ''S2'' \<mapsto> (''active'', 3600)] no_failure))
     (session_key ''S2'') \<noteq> None
   \<and> activeTransports (instance_of Map.empty [session_key ''S2'' \<mapsto> (''active'', 3600)] no_failure)
        ''S2'' = None
   \<and> fst (POST (instance_of Map.empty [session_key ''S2'' \<mapsto> (''active'', 3600)] no_failure)
             (call ''S2'' ''ping'')) =
     \<lparr>status = 400,
      body = JObject [(''error'', JString ''Transport not found for session ID. Please reconnect.'')]\<rparr>"
  using POST_transport_unreachable
    [of "call ''S2'' ''ping''" "''S2''"
        "instance_of Map.empty [session_key ''S2'' \<mapsto> (''active'', 3600)] no_failure"]
  by (simp add: call_def instance_of_def no_failure_def Object_prototype_names_def)

text \<open>
  Claim C2. A call carries a session id \<open>sid\<close>. When the store answers the existence check and
  holds no record of \<open>sid\<close>, \<open>POST\<close> answers 400 with the error \<open>Invalid or expired session ID\<close>,
  whatever \<open>activeTransports\<close> holds (\<open>reg\<close> is any registry), and hands nothing to a handler.
\<close>

theorem POST_session_expired:
  assumes "searchParams_sessionId req = Some sid" and "sid \<noteq> []"
    and "fails (redis s) EXISTS = None"
    and "entries (redis s) (session_key sid) = None"
  shows "fst (POST (s\<lparr>activeTransports := reg\<rparr>) req) =
           \<lparr>status = 400, body = JObject [(''error'', JString ''Invalid or expired session ID'')]\<rparr>
         \<and> handled (snd (POST (s\<lparr>activeTransports := reg\<rparr>) req)) = handled s"
  using assms by (simp add: POST_defs)

theorem POST_session_expired_witness:
  "entries (redis (instance_of Map.empty Map.empty no_failure)) (session_key ''UNKNOWN'') = None
   \<and> fst (POST (instance_of [''UNKNOWN'' \<mapsto> pong_transport ''UNKNOWN''] Map.empty no_failure)
             (call ''UNKNOWN'' ''ping'')) =
     \<lparr>status = 400, body = JObject [(''error'', JString ''Invalid or expired session ID'')]\<rparr>"
  using POST_session_expired
    [of "call ''UNKNOWN'' ''ping''" "''UNKNOWN''" "instance_of Map.empty Map.empty no_failure"
        "[''UNKNOWN'' \<mapsto> pong_transport ''UNKNOWN'']"]
  by (simp add: call_def instance_of_def no_failure_def)

text \<open>
  Claim C3. A call carries a session id. When the existence check itself fails (the \<open>EXISTS\<close>
  command rejects), \<open>POST\<close> answers 500 with the error \<open>Internal server error checking session\<close>;
  nothing is handed to a handler and no further command reaches the store. The failure is
  not answered as the expired case is.
\<close>

theorem POST_store_error_fails_closed:
  assumes "searchParams_sessionId req = Some sid" and "sid \<noteq> []"
    and "fails (redis s) EXISTS = Some err"
  shows "fst (POST s req) =
           \<lparr>status = 500, body = JObject [(''error'', JString ''Internal server error checking session'')]\<rparr>
         \<and> fst (POST s req) \<noteq>
           \<lparr>status = 400, body = JObject [(''error'', JString ''Invalid or expired session ID'')]\<rparr>
         \<and> handled (snd (POST s req)) = handled s
         \<and> redis (snd (POST s req)) = redis s"
  using assms by (simp add: POST_defs)

theorem POST_store_error_fails_closed_witness:
  "fails (redis (instance_of [''S1'' \<mapsto> pong_transport ''S1''] Map.empty
                   (no_failure(EXISTS \<mapsto> Error ''ECONNREFUSED'')))) EXISTS = Some (Error ''ECONNREFUSED'')
   \<and> fst (POST (instance_of [''S1'' \<mapsto> pong_transport ''S1''] Map.empty
                (no_failure(EXISTS \<mapsto> Error ''ECONNREFUSED'')))
             (call ''S1'' ''ping'')) =
     \<lparr>status = 500, body = JObject [(''error'', JString ''Internal server error checking session'')]\<rparr>
   \<and> handled (snd (POST (instance_of [''S1'' \<mapsto> pong_transport ''S1''] Map.empty
                (no_failure(EXISTS \<mapsto> Error ''ECONNREFUSED'')))
             (call ''S1'' ''ping''))) = []"
  using POST_store_error_fails_closed
    [of "call ''S1'' ''ping''" "''S1''"
        "instance_of [''S1'' \<mapsto> pong_transport ''S1''] Map.empty
                (no_failure(EXISTS \<mapsto> Error ''ECONNREFUSED''))" "Error ''ECONNREFUSED''"]
  by (simp add: call_def instance_of_def no_failure_def)

section \<open>The refresh of the store record\<close>

text \<open>
  Claim C5. The outcome of the refresh never reaches the response: for every state and
  request, the response is the same whatever the \<open>EXPIRE\<close> command does (\<open>outcome\<close> is none for
  a command that succeeds, or any rejection). A successful call (a response below 300) with
  session id \<open>sid\<close> has passed the existence check with the record of \<open>sid\<close> in the store. And for
  every call that passes that check: when \<open>EXPIRE\<close> succeeds, afterwards the record has the same
  value and a TTL of \<open>SESSION_EXPIRATION_SECONDS\<close> (3600), every other record as before; when
  it rejects with \<open>err\<close>, the store is as before and the console has the entry
  \<open>Error refreshing expiry for session sid:\<close> with \<open>err\<close>.
\<close>

theorem POST_refreshes_ttl:
  "fst (POST (s\<lparr>redis := (redis s)\<lparr>fails := (fails (redis s))(EXPIRE := outcome)\<rparr>\<rparr>) req)
     = fst (POST s req)
   \<and> (status (fst (POST s req)) < 300 \<longrightarrow> searchParams_sessionId req = Some sid \<longrightarrow>
         sid \<noteq> [] \<and> fails (redis s) EXISTS = None \<and> entries (redis s) (session_key sid) \<noteq> None)
   \<and> (searchParams_sessionId req = Some sid \<longrightarrow> sid \<noteq> [] \<longrightarrow> fails (redis s) EXISTS = None \<longrightarrow>
       entries (redis s) (session_key sid) = Some (v, ttl) \<longrightarrow>
         (fails (redis s) EXPIRE = None \<longrightarrow>
            entries (redis (snd (POST s req))) =
              (entries (redis s))(session_key sid \<mapsto> (v, SESSION_EXPIRATION_SECONDS)))
         \<and> (\<forall>err. fails (redis s) EXPIRE = Some err \<longrightarrow>
               entries (redis (snd (POST s req))) = entries (redis s)
               \<and> (ERROR, ''Error refreshing expiry for session '' @ sid @ '':'', Some err)
                     \<in> set (console (snd (POST s req)))))"
proof (intro conjI impI)
  show "fst (POST (s\<lparr>redis := (redis s)\<lparr>fails := (fails (redis s))(EXPIRE := outcome)\<rparr>\<rparr>) req)
     = fst (POST s req)"
    by (rule POST_response_frame) simp_all
next
  assume "status (fst (POST s req)) < 300" and "searchParams_sessionId req = Some sid"
  with POST_success_passed [of s req]
  show "sid \<noteq> []" and "fails (redis s) EXISTS = None"
    and "entries (redis s) (session_key sid) \<noteq> None"
    by auto
next
  assume checked: "searchParams_sessionId req = Some sid" "sid \<noteq> []"
    "fails (redis s) EXISTS = None" "entries (redis s) (session_key sid) = Some (v, ttl)"
  note store = POST_checked_store [OF checked]
  {
    assume "fails (redis s) EXPIRE = None"
    with checked(4)
    show "entries (redis (snd (POST s req))) =
        (entries (redis s))(session_key sid \<mapsto> (v, SESSION_EXPIRATION_SECONDS))"
      by (simp add: store refresh_expiry_entries)
  }
  show "\<forall>err. fails (redis s) EXPIRE = Some err \<longrightarrow>
      entries (redis (snd (POST s req))) = entries (redis s)
      \<and> (ERROR, ''Error refreshing expiry for session '' @ sid @ '':'', Some err)
            \<in> set (console (snd (POST s req)))"
  proof (intro allI impI conjI)
    fix err
    assume err: "fails (redis s) EXPIRE = Some err"
    with checked(4) show "entries (redis (snd (POST s req))) = entries (redis s)"
      by (simp add: store refresh_expiry_entries)
    from POST_checked_console [OF checked] obtain es where
      "console (snd (POST s req)) =
         console (refresh_expiry
           (console_log s (''Received POST request for MCP message (Session ID: '' @ sid @ '')''))
           sid) @ es"
      by blast
    with err show "(ERROR, ''Error refreshing expiry for session '' @ sid @ '':'', Some err)
            \<in> set (console (snd (POST s req)))"
      by (simp add: refresh_expiry_logs_failure)
  qed
qed

theorem POST_refreshes_ttl_witness:
  "fst (POST (instance_of [''S1'' \<mapsto> pong_transport ''S1''] [session_key ''S1'' \<mapsto> (''active'', 120)]
                (no_failure(EXPIRE \<mapsto> Error ''READONLY'')))
             (call ''S1'' ''ping''))
     = \<lparr>status = 200, body = JObject [(''success'', JBool True)]\<rparr>
   \<and> entries (redis (snd (POST (instance_of [''S1'' \<mapsto> pong_transport ''S1'']
                                  [session_key ''S1'' \<mapsto> (''active'', 120)]
                                  (no_failure(EXPIRE \<mapsto> Error ''READONLY'')))
                               (call ''S1'' ''ping''))))
       = [session_key ''S1'' \<mapsto> (''active'', 120)]
   \<and> (ERROR, ''Error refreshing expiry for session S1:'', Some (Error ''READONLY''))
       \<in> set (console (snd (POST (instance_of [''S1'' \<mapsto> pong_transport ''S1'']
                                  [session_key ''S1'' \<mapsto> (''active'', 120)]
                                  (no_failure(EXPIRE \<mapsto> Error ''READONLY'')))
                               (call ''S1'' ''ping''))))
   \<and> entries (redis (snd (POST (instance_of [''S1'' \<mapsto> pong_transport ''S1'']
                                  [session_key ''S1'' \<mapsto> (''active'', 120)] no_failure)
                               (call ''S1'' ''ping''))))
       = [session_key ''S1'' \<mapsto> (''active'', 3600)]"
  using POST_refreshes_ttl
    [of "instance_of [''S1'' \<mapsto> pong_transport ''S1''] [session_key ''S1'' \<mapsto> (''active'', 120)]
                (no_failure(EXPIRE \<mapsto> Error ''READONLY''))"
        None "call ''S1'' ''ping''" "''S1''" "''active''" 120]
    POST_refreshes_ttl
    [of "instance_of [''S1'' \<mapsto> pong_transport ''S1''] [session_key ''S1'' \<mapsto> (''active'', 120)]
                no_failure"
        None "call ''S1'' ''ping''" "''S1''" "''active''" 120]
  by (simp add: POST_defs instance_of_def call_def no_failure_def pong_transport_def pong_handler_def
      process_message_def refresh_expiry_def redis_expire_def SESSION_EXPIRATION_SECONDS_def
      session_key_def)

section \<open>What a call that reaches the transport answers\<close>

text \<open>
  Claim C4, as stated, at a concrete input. Session \<open>S1\<close> is open and registered with a
  transport whose \<open>receiveMessage\<close> answers \<open>{pong: true}\<close> to every message. The call with
  payload \<open>ping\<close> is forwarded, and the response is 200 with \<open>{success: true}\<close>, not with the
  handler's answer.
\<close>

theorem POST_ping_pong_counterexample:
  "receiveMessage (pong_transport ''S1'') = Some pong_handler
   \<and> pong_handler ''ping'' = Inr (Some (JObject [(''pong'', JBool True)]))
   \<and> handled (snd (POST (instance_of [''S1'' \<mapsto> pong_transport ''S1'']
                            [session_key ''S1'' \<mapsto> (''active'', 3600)] no_failure)
                         (call ''S1'' ''ping''))) = [ReceiveMessage ''S1'' ''ping'']
   \<and> fst (POST (instance_of [''S1'' \<mapsto> pong_transport ''S1'']
                   [session_key ''S1'' \<mapsto> (''active'', 3600)] no_failure)
                (call ''S1'' ''ping'')) =
        \<lparr>status = 200, body = JObject [(''success'', JBool True)]\<rparr>
   \<and> fst (POST (instance_of [''S1'' \<mapsto> pong_transport ''S1'']
                   [session_key ''S1'' \<mapsto> (''active'', 3600)] no_failure)
                (call ''S1'' ''ping'')) \<noteq>
        \<lparr>status = 200, body = JObject [(''pong'', JBool True)]\<rparr>"
  by (simp add: POST_defs instance_of_def call_def no_failure_def pong_transport_def pong_handler_def
      pong_def process_message_def refresh_expiry_def redis_expire_def session_key_def)


text \<open>
  Claim C4, amended. A call with a readable body \<open>m\<close> reaches the transport \<open>tr\<close> registered for
  its session. If \<open>tr\<close> has \<open>receiveMessage\<close> and it resolves, to any value \<open>ack\<close> or to none, the
  response is 200 with \<open>{success: true}\<close>: the value is discarded. If \<open>tr\<close> has no
  \<open>receiveMessage\<close> and \<open>handlePostMessage\<close> returns without throwing, let \<open>code\<close> be the last
  status the handler set on the mock response (200 when it set none) and \<open>b\<close> the last body it
  sent (empty when it sent none). When \<open>code\<close> is a status a response with a body can have
  (200 to 599 other than 204, 205 and 304), the response has status \<open>code\<close> and carries \<open>b\<close> as a
  JSON string, or \<open>{success: true}\<close> when \<open>b\<close> is empty; for any other \<open>code\<close> the response is 500
  with \<open>Failed to process message\<close>.
\<close>

theorem POST_success_response:
  assumes "searchParams_sessionId req = Some sid" and "sid \<noteq> []"
    and "fails (redis s) EXISTS = None"
    and "entries (redis s) (session_key sid) \<noteq> None"
    and "activeTransports s sid = Some tr"
    and "text_body req = Inr m"
  shows "(\<forall>recv ack. receiveMessage tr = Some recv \<longrightarrow> recv m = Inr ack \<longrightarrow>
            fst (POST s req) = \<lparr>status = 200, body = JObject [(''success'', JBool True)]\<rparr>)
       \<and> (\<forall>calls code b. receiveMessage tr = None \<longrightarrow> handlePostMessage tr req = (calls, None) \<longrightarrow>
            fold mockRes calls (200, []) = (code, b) \<longrightarrow>
            fst (POST s req) =
              (if 200 \<le> code \<and> code \<le> 599 \<and> code \<noteq> 204 \<and> code \<noteq> 205 \<and> code \<noteq> 304
               then \<lparr>status = code,
                     body = (if b = [] then JObject [(''success'', JBool True)] else JString b)\<rparr>
               else \<lparr>status = 500,
                     body = JObject [(''error'', JString ''Failed to process message'')]\<rparr>))"
proof -
  from assms(4) obtain rec where rec: "entries (redis s) (session_key sid) = Some rec" by auto
  note post = POST_passed [OF assms(1,2,3) rec assms(5)]
  show ?thesis
    using assms(6)
    by (simp add: post process_message_def NextResponse_json_def success_body_def error_body_def
        failed_to_process_def response_init_ok_def Let_def)
qed

theorem POST_success_response_witness:
  "fst (POST (instance_of [''S1'' \<mapsto> pong_transport ''S1'']
                   [session_key ''S1'' \<mapsto> (''active'', 3600)] no_failure)
                (call ''S1'' ''ping'')) =
        \<lparr>status = 200, body = JObject [(''success'', JBool True)]\<rparr>
   \<and> fst (POST (instance_of [''S3'' \<mapsto> accepting_transport ''S3'']
                   [session_key ''S3'' \<mapsto> (''active'', 3600)] no_failure)
                (call ''S3'' ''ping'')) =
        \<lparr>status = 202, body = JString ''Accepted''\<rparr>
   \<and> fst (POST (instance_of [''S4'' \<mapsto> no_content_transport ''S4'']
                   [session_key ''S4'' \<mapsto> (''active'', 3600)] no_failure)
                (call ''S4'' ''ping'')) =
        \<lparr>status = 500, body = JObject [(''error'', JString ''Failed to process message'')]\<rparr>"
  using POST_success_response
    [of "call ''S1'' ''ping''" "''S1''"
        "instance_of [''S1'' \<mapsto> pong_transport ''S1''] [session_key ''S1'' \<mapsto> (''active'', 3600)] no_failure"
        "pong_transport ''S1''" "''ping''"]
    POST_success_response
    [of "call ''S3'' ''ping''" "''S3''"
        "instance_of [''S3'' \<mapsto> accepting_transport ''S3''] [session_key ''S3'' \<mapsto> (''active'', 3600)] no_failure"
        "accepting_transport ''S3''" "''ping''"]
    POST_success_response
    [of "call ''S4'' ''ping''" "''S4''"
        "instance_of [''S4'' \<mapsto> no_content_transport ''S4''] [session_key ''S4'' \<mapsto> (''active'', 3600)] no_failure"
        "no_content_transport ''S4''" "''ping''"]
  by (simp add: instance_of_def call_def no_failure_def pong_transport_def pong_handler_def
      accepting_transport_def no_content_transport_def)

section \<open>A failing handler\<close>

text \<open>
  Claim C6, as stated, at a concrete input. Session \<open>S1\<close> is registered with a transport whose
  handler rejects, and its store record has 100 seconds to live. The call fails with 500, and
  the record the failed call leaves behind has 3600 seconds to live: the record is not left
  unchanged.
\<close>

theorem POST_handler_failure_counterexample:
  "fst (POST (instance_of [''S1'' \<mapsto> broken_transport ''S1'']
                 [session_key ''S1'' \<mapsto> (''active'', 100)] no_failure)
              (call ''S1'' ''ping'')) =
      \<lparr>status = 500, body = JObject [(''error'', JString ''Failed to process message'')]\<rparr>
   \<and> entries (redis (instance_of [''S1'' \<mapsto> broken_transport ''S1'']
                 [session_key ''S1'' \<mapsto> (''active'', 100)] no_failure)) (session_key ''S1'')
        = Some (''active'', 100)
   \<and> entries (redis (snd (POST (instance_of [''S1'' \<mapsto> broken_transport ''S1'']
                 [session_key ''S1'' \<mapsto> (''active'', 100)] no_failure)
              (call ''S1'' ''ping'')))) (session_key ''S1'')
        = Some (''active'', 3600)"
  by (simp add: POST_defs instance_of_def call_def no_failure_def broken_transport_def
      broken_handler_def process_message_def failed_to_process_def refresh_expiry_def
      redis_expire_def session_key_def SESSION_EXPIRATION_SECONDS_def)

text \<open>
  Claim C6, amended. When the handler of the registered transport fails on a routed payload
  (\<open>receiveMessage\<close> rejects, or \<open>handlePostMessage\<close> throws), \<open>POST\<close> answers 500 with the error
  \<open>Failed to process message\<close> and the session is not torn down: \<open>activeTransports\<close> is as
  before, and the store keeps every record with its value. The TTL of the session's record
  is reset to 3600 when the \<open>EXPIRE\<close> command succeeds (the refresh is issued before the
  transport is looked up) and is as before when it rejects.
\<close>

theorem POST_handler_failure_keeps_session:
  assumes "searchParams_sessionId req = Some sid" and "sid \<noteq> []"
    and "fails (redis s) EXISTS = None"
    and "entries (redis s) (session_key sid) = Some (v, ttl)"
    and "activeTransports s sid = Some tr"
    and "text_body req = Inr m"
    and "(\<exists>recv. receiveMessage tr = Some recv \<and> recv m = Inl err)
         \<or> (receiveMessage tr = None \<and> snd (handlePostMessage tr req) = Some err)"
  shows "fst (POST s req) =
           \<lparr>status = 500, body = JObject [(''error'', JString ''Failed to process message'')]\<rparr>
         \<and> activeTransports (snd (POST s req)) = activeTransports s
         \<and> entries (redis (snd (POST s req))) =
             (case fails (redis s) EXPIRE of
                None \<Rightarrow> (entries (redis s))(session_key sid \<mapsto> (v, SESSION_EXPIRATION_SECONDS))
              | Some e \<Rightarrow> entries (redis s))"
proof -
  note post = POST_passed [OF assms(1,2,3,4,5)]
  have resp: "fst (POST s req) =
           \<lparr>status = 500, body = JObject [(''error'', JString ''Failed to process message'')]\<rparr>"
    using assms(6,7)
    by (auto simp add: post process_message_def failed_to_process_def NextResponse_json_def
        error_body_def Let_def split: prod.splits)
  have reg: "activeTransports (snd (POST s req)) = activeTransports s"
    by (simp add: post process_message_activeTransports refresh_expiry_activeTransports)
  have store: "entries (redis (snd (POST s req))) =
             (case fails (redis s) EXPIRE of
                None \<Rightarrow> (entries (redis s))(session_key sid \<mapsto> (v, SESSION_EXPIRATION_SECONDS))
              | Some e \<Rightarrow> entries (redis s))"
    using assms(4) by (simp add: post process_message_redis refresh_expiry_entries split: option.splits)
  from resp reg store show ?thesis by simp
qed

theorem POST_handler_failure_keeps_session_witness:
  "activeTransports (snd (POST (instance_of [''S1'' \<mapsto> broken_transport ''S1'']
                 [session_key ''S1'' \<mapsto> (''active'', 100)] no_failure)
              (call ''S1'' ''ping''))) ''S1'' = Some (broken_transport ''S1'')
   \<and> entries (redis (snd (POST (instance_of [''S1'' \<mapsto> broken_transport ''S1'']
                 [session_key ''S1'' \<mapsto> (''active'', 100)] no_failure)
              (call ''S1'' ''ping'')))) =
       [session_key ''S1'' \<mapsto> (''active'', 3600)]
   \<and> fst (POST (instance_of [''S1'' \<mapsto> broken_transport ''S1'']
                 [session_key ''S1'' \<mapsto> (''active'', 100)] no_failure)
              (call ''S1'' ''ping'')) =
      \<lparr>status = 500, body = JObject [(''error'', JString ''Failed to process message'')]\<rparr>"
  using POST_handler_failure_keeps_session
    [of "call ''S1'' ''ping''" "''S1''"
        "instance_of [''S1'' \<mapsto> broken_transport ''S1''] [session_key ''S1'' \<mapsto> (''active'', 100)] no_failure"
        "''active''" 100 "broken_transport ''S1''" "''ping''" "Error ''handler failed''"]
  by (simp add: instance_of_def call_def no_failure_def broken_transport_def broken_handler_def
      SESSION_EXPIRATION_SECONDS_def)

section \<open>Registration and teardown\<close>

lemma store_session_activeTransports [simp]:
  "activeTransports (store_session s sid) = activeTransports s"
  by (simp add: store_session_def split: prod.splits sum.splits)

lemma delete_session_activeTransports [simp]:
  "activeTransports (delete_session s sid) = activeTransports s"
  by (simp add: delete_session_def split: prod.splits sum.splits)

text \<open>
  Claim C7, as stated, at a concrete input. \<open>S1\<close> is bound to one transport; a stream-open
  whose new transport carries the id \<open>S1\<close> again completes, and \<open>S1\<close> is then bound to the
  new, different transport.
\<close>

theorem GET_replaces_binding_counterexample:
  "activeTransports (instance_of [''S1'' \<mapsto> pong_transport ''S1''] Map.empty no_failure) ''S1''
     = Some (pong_transport ''S1'')
   \<and> activeTransports
        (snd (GET (instance_of [''S1'' \<mapsto> pong_transport ''S1''] Map.empty no_failure)
                  (broken_transport ''S1'') None)) ''S1''
     = Some (broken_transport ''S1'')
   \<and> broken_transport ''S1'' \<noteq> pong_transport ''S1''"
  by (simp add: GET_def store_session_def redis_set_ex_def instance_of_def no_failure_def
      broken_transport_def pong_transport_def broken_handler_def pong_handler_def
      console_log_def console_error_def Let_def fun_eq_iff)

text \<open>
  Claim C7, amended. A stream-open whose connection to the server succeeds stores the binding
  by plain assignment, \<open>activeTransports[id] = transport\<close>: afterwards \<open>id\<close> is bound to the new
  transport whether or not it was bound before, and every other binding is as before. No
  duplicate is detected and no error is raised.
\<close>

theorem GET_registers:
  "activeTransports (snd (GET s tr None)) = (activeTransports s)(sessionId tr \<mapsto> tr)"
  by (simp add: GET_def Let_def)

text \<open>
  Claim C8. The teardown callback first removes the binding of the transport's id from
  \<open>activeTransports\<close> and then issues the deletion of the store record on the state so
  obtained. The binding is gone afterwards whatever the store does; removing an id that is
  not bound leaves \<open>activeTransports\<close> as it is. When the \<open>DEL\<close> command succeeds the record is
  gone and every other record is as before; when it rejects with \<open>err\<close> the store is as before
  and the console has the entry \<open>Error deleting session id from Redis:\<close> with \<open>err\<close>.
\<close>

theorem onClose_teardown:
  "onClose s tr =
     delete_session
       ((console_log s (''SSE connection closed for session '' @ sessionId tr @ ''. Cleaning up.''))
          \<lparr>activeTransports := (activeTransports s)(sessionId tr := None)\<rparr>)
       (sessionId tr)
   \<and> activeTransports (onClose s tr) = (activeTransports s)(sessionId tr := None)
   \<and> (activeTransports s (sessionId tr) = None \<longrightarrow> activeTransports (onClose s tr) = activeTransports s)
   \<and> (fails (redis s) DEL = None \<longrightarrow>
         entries (redis (onClose s tr)) = (entries (redis s))(session_key (sessionId tr) := None))
   \<and> (\<forall>err. fails (redis s) DEL = Some err \<longrightarrow>
         redis (onClose s tr) = redis s
         \<and> (ERROR, ''Error deleting session '' @ sessionId tr @ '' from Redis:'', Some err)
               \<in> set (console (onClose s tr)))"
  by (auto simp add: onClose_def Let_def delete_session_def redis_del_def console_error_def
      console_log_def split: option.splits)

theorem onClose_teardown_witness:
  "activeTransports
     (onClose (instance_of [''S1'' \<mapsto> pong_transport ''S1''] [session_key ''S1'' \<mapsto> (''active'', 3600)]
                 (no_failure(DEL \<mapsto> Error ''ECONNRESET'')))
              (pong_transport ''S1'')) = Map.empty
   \<and> entries (redis
       (onClose (instance_of [''S1'' \<mapsto> pong_transport ''S1''] [session_key ''S1'' \<mapsto> (''active'', 3600)]
                 (no_failure(DEL \<mapsto> Error ''ECONNRESET'')))
              (pong_transport ''S1''))) = [session_key ''S1'' \<mapsto> (''active'', 3600)]
   \<and> activeTransports
       (onClose (instance_of Map.empty [session_key ''S1'' \<mapsto> (''active'', 3600)] no_failure)
              (pong_transport ''S1'')) = Map.empty
   \<and> entries (redis
       (onClose (instance_of Map.empty [session_key ''S1'' \<mapsto> (''active'', 3600)] no_failure)
              (pong_transport ''S1''))) = Map.empty"
  using onClose_teardown
    [of "instance_of [''S1'' \<mapsto> pong_transport ''S1''] [session_key ''S1'' \<mapsto> (''active'', 3600)]
                 (no_failure(DEL \<mapsto> Error ''ECONNRESET''))" "pong_transport ''S1''"]
    onClose_teardown
    [of "instance_of Map.empty [session_key ''S1'' \<mapsto> (''active'', 3600)] no_failure"
        "pong_transport ''S1''"]
  by (simp add: instance_of_def no_failure_def pong_transport_def delete_session_def redis_del_def
      console_log_def console_error_def)

section \<open>Start-up\<close>

text \<open>
  Claim C9, as stated, at a concrete input. Two endpoints with the scheme \<open>redis://\<close>, one of
  them with \<open>tls=true\<close> in its query: the first gets TLS options, the second none. The scheme
  does not decide the toggle.
\<close>

theorem redis_module_tls_counterexample:
  "\<not> startsWith ''redis://localhost:6379?tls=true'' ''rediss://''
   \<and> \<not> startsWith ''redis://localhost:6379'' ''rediss://''
   \<and> redis_module \<lparr>REDIS_URL = Some ''redis://localhost:6379?tls=true'', NODE_ENV = None\<rparr> =
       Inr \<lparr>redis_url = ''redis://localhost:6379?tls=true'',
            redis_opts = \<lparr>maxRetriesPerRequest = 3, tls = Some \<lparr>rejectUnauthorized = False\<rparr>,
                          lazyConnect = True\<rparr>,
            startup_console = [(LOG, ''Attempting Redis connection with TLS enabled.'', None)]\<rparr>
   \<and> redis_module \<lparr>REDIS_URL = Some ''redis://localhost:6379'', NODE_ENV = None\<rparr> =
       Inr \<lparr>redis_url = ''redis://localhost:6379'',
            redis_opts = \<lparr>maxRetriesPerRequest = 3, tls = None, lazyConnect = True\<rparr>,
            startup_console = [(LOG, ''Attempting Redis connection without explicit TLS.'', None)]\<rparr>"
  by (simp add: redis_module_def startsWith_def)

text \<open>
  Claim C9, amended. When \<open>REDIS_URL\<close> is unset or empty, the module \<open>lib/redis\<close> throws
  \<open>REDIS_URL environment variable is not set.\<close>, and with it every run of session operations
  ends in that error before its first operation. When \<open>REDIS_URL\<close> is set to a non-empty
  endpoint, the module loads with that endpoint, and TLS options are passed exactly when the
  endpoint starts with \<open>rediss://\<close> or contains \<open>tls=true\<close>.
\<close>

theorem redis_module_startup:
  "(REDIS_URL e = None \<or> REDIS_URL e = Some [] \<longrightarrow>
      redis_module e = Inl (Error ''REDIS_URL environment variable is not set.'')
      \<and> (\<forall>srv ops. serve e srv ops = Inl (Error ''REDIS_URL environment variable is not set.'')))
   \<and> (\<forall>u. REDIS_URL e = Some u \<and> u \<noteq> [] \<longrightarrow>
        (\<exists>m. redis_module e = Inr m \<and> redis_url m = u
              \<and> (tls (redis_opts m) \<noteq> None) =
                  (startsWith u ''rediss://'' \<or> includes_str u ''tls=true'')))"
  by (auto simp add: redis_module_def serve_def route_module_def)

theorem redis_module_startup_witness:
  "serve \<lparr>REDIS_URL = None, NODE_ENV = Some ''production''\<rparr>
         \<lparr>entries = Map.empty, fails = no_failure\<rparr>
         [StreamOpen (pong_transport ''S1'') None, Call (call ''S1'' ''ping'')]
     = Inl (Error ''REDIS_URL environment variable is not set.'')
   \<and> startsWith ''rediss://cache.example:6380'' ''rediss://''
   \<and> redis_module \<lparr>REDIS_URL = Some ''rediss://cache.example:6380'', NODE_ENV = Some ''production''\<rparr>
       = Inr \<lparr>redis_url = ''rediss://cache.example:6380'',
              redis_opts = \<lparr>maxRetriesPerRequest = 3, tls = Some \<lparr>rejectUnauthorized = True\<rparr>,
                            lazyConnect = True\<rparr>,
              startup_console = [(LOG, ''Attempting Redis connection with TLS enabled.'', None)]\<rparr>"
  using redis_module_startup [of "\<lparr>REDIS_URL = None, NODE_ENV = Some ''production''\<rparr>"]
    redis_module_startup
      [of "\<lparr>REDIS_URL = Some ''rediss://cache.example:6380'', NODE_ENV = Some ''production''\<rparr>"]
  by (simp add: startsWith_def redis_module_def)

end

